theory Spec2Isabelle
  imports Complex_Main
begin

section \<open>JavaScript values\<close>

text \<open>
  The values that travel through the form builder are JSON-like: what an input element
  produces (a string, an array of option strings) and what a JSON request body can carry.
  Numbers are the integer-valued ones; objects (a \<open>File\<close> handle of a file input) are
  not modelled. Strings are lists of 8-bit characters, read as code units.
\<close>

datatype jsval =
    JUndefined
  | JNull
  | JBool bool
  | JNum int
  | JStr string
  | JArr "jsval list"

text \<open>Truthiness, as \<open>!value\<close> and \<open>value &&\<close> read it: an array is always truthy.\<close>

fun truthy :: "jsval \<Rightarrow> bool" where
  "truthy JUndefined = False"
| "truthy JNull = False"
| "truthy (JBool b) = b"
| "truthy (JNum n) = (n \<noteq> 0)"
| "truthy (JStr s) = (s \<noteq> [])"
| "truthy (JArr xs) = True"

text \<open>Decimal printing of an integer, as a template literal prints a number.\<close>

fun showNat :: "nat \<Rightarrow> string" where
  "showNat n =
     (if n < 10 then [''0123456789'' ! n]
      else showNat (n div 10) @ [''0123456789'' ! (n mod 10)])"

declare showNat.simps [simp del]

definition showInt :: "int \<Rightarrow> string" where
  "showInt i = (if i < 0 then CHR ''-'' # showNat (nat (- i)) else showNat (nat i))"

text \<open>\<open>Array.prototype.join\<close> on strings already converted.\<close>

fun joinStrings :: "string \<Rightarrow> string list \<Rightarrow> string" where
  "joinStrings sep [] = []"
| "joinStrings sep [s] = s"
| "joinStrings sep (s # t # ss) = s @ sep @ joinStrings sep (t # ss)"

text \<open>
  \<open>String(value)\<close>: an array prints as its elements joined by a comma, where
  \<open>undefined\<close> and \<open>null\<close> elements print as the empty string.
\<close>

fun jsToString :: "jsval \<Rightarrow> string" where
  "jsToString JUndefined = ''undefined''"
| "jsToString JNull = ''null''"
| "jsToString (JBool b) = (if b then ''true'' else ''false'')"
| "jsToString (JNum n) = showInt n"
| "jsToString (JStr s) = s"
| "jsToString (JArr xs) =
     joinStrings '',''
       (map (\<lambda>x. if x = JUndefined \<or> x = JNull then [] else jsToString x) xs)"


text \<open>\<open>value.length\<close>: defined on strings and arrays, \<open>undefined\<close> elsewhere.\<close>

fun jsLength :: "jsval \<Rightarrow> nat option" where
  "jsLength (JStr s) = Some (length s)"
| "jsLength (JArr xs) = Some (length xs)"
| "jsLength v = None"

text \<open>\<open>options.includes(value)\<close> on an array of strings: only an equal string is found.\<close>

definition includes_js :: "string list \<Rightarrow> jsval \<Rightarrow> bool" where
  "includes_js opts v = (case v of JStr s \<Rightarrow> s \<in> set opts | _ \<Rightarrow> False)"

subsection \<open>The email pattern\<close>

text \<open>
  The character class \<open>\s\<close> on 8-bit code units: tab, line feed, vertical tab, form feed,
  carriage return, space and the no-break space.
\<close>

definition jsSpace :: "char \<Rightarrow> bool" where
  "jsSpace c = (of_char c \<in> set [9, 10, 11, 12, 13, 32, 160 :: nat])"

text \<open>The class \<open>[^\s@]\<close>.\<close>

definition notSpaceAt :: "char \<Rightarrow> bool" where
  "notSpaceAt c = (c \<noteq> CHR ''@'' \<and> \<not> jsSpace c)"

text \<open>
  \<open>/^[^\s@]+@[^\s@]+\.[^\s@]+$/.test(s)\<close>. No class admits \<open>@\<close>, so the one \<open>@\<close> of a
  match is the first of the string; what follows it must hold a dot that is neither its
  first nor its last character.
\<close>

definition emailRegex_test :: "string \<Rightarrow> bool" where
  "emailRegex_test s =
     (let localPart = takeWhile (\<lambda>c. c \<noteq> CHR ''@'') s;
          rest = dropWhile (\<lambda>c. c \<noteq> CHR ''@'') s
      in case rest of
           [] \<Rightarrow> False
         | _ # host \<Rightarrow>
             localPart \<noteq> [] \<and> list_all notSpaceAt localPart \<and> list_all notSpaceAt host \<and>
             CHR ''.'' \<in> set (butlast (tl host)))"

section \<open>The form definition\<close>

datatype fieldType = Text | Email | Select | Checkbox | Radio | Textarea | File

record validation =
  minLength :: "int option"
  maxLength :: "int option"
  pattern :: "string option"
  minValue :: "int option"
  maxValue :: "int option"

record FormField =
  id_f :: string
  type_f :: fieldType
  label :: string
  placeholder :: "string option"
  required :: bool
  validation :: "validation option"
  options :: "string list option"
  fileTypes :: "string list option"
  maxFileSize :: "int option"
  order_f :: int

record FormSettings =
  thankYouMessage :: "string option"
  submissionLimit :: "int option"
  allowMultipleSubmissions :: bool
  redirectUrl :: "string option"
  isMultiStep :: bool
  steps :: "string list option"

datatype formStatus = Draft | Published

record Form =
  title :: string
  description :: "string option"
  formFields :: "FormField list"
  settings :: FormSettings
  status :: formStatus
  submissions :: int

section \<open>Client-side validation\<close>

text \<open>
  \<open>field.validation?.minLength\<close> and \<open>field.validation?.maxLength\<close>: \<open>undefined\<close> when the
  sub-record or the attribute is missing.
\<close>

definition minLengthOf :: "FormField \<Rightarrow> int option" where
  "minLengthOf field = (case validation field of None \<Rightarrow> None | Some v \<Rightarrow> minLength v)"

definition maxLengthOf :: "FormField \<Rightarrow> int option" where
  "maxLengthOf field = (case validation field of None \<Rightarrow> None | Some v \<Rightarrow> maxLength v)"

text \<open>
  \<open>bound && value.length < bound\<close>: the bound must be set and non-zero, and a comparison
  with an undefined length is false.
\<close>

definition tooShort :: "int option \<Rightarrow> jsval \<Rightarrow> bool" where
  "tooShort bound v =
     (case bound of
        None \<Rightarrow> False
      | Some n \<Rightarrow> n \<noteq> 0 \<and> (case jsLength v of None \<Rightarrow> False | Some l \<Rightarrow> int l < n))"

definition tooLong :: "int option \<Rightarrow> jsval \<Rightarrow> bool" where
  "tooLong bound v =
     (case bound of
        None \<Rightarrow> False
      | Some n \<Rightarrow> n \<noteq> 0 \<and> (case jsLength v of None \<Rightarrow> False | Some l \<Rightarrow> int l > n))"

text \<open>The \<open>for (const val of value)\<close> loop of the checkbox case: the first element outside
  the options returns the message, and the loop falls through when there is none.\<close>

fun checkboxLoop :: "FormField \<Rightarrow> jsval list \<Rightarrow> string" where
  "checkboxLoop field [] = []"
| "checkboxLoop field (val # vals) =
     (case options field of
        Some opts \<Rightarrow>
          (if \<not> includes_js opts val then label field @ '' has an invalid option selected''
           else checkboxLoop field vals)
      | None \<Rightarrow> checkboxLoop field vals)"

text \<open>\<open>validateField\<close> of the public form page; the empty string means the value passes.\<close>

definition validateField :: "FormField \<Rightarrow> jsval \<Rightarrow> string" where
  "validateField field v =
     (if required field \<and> (\<not> truthy v \<or> v = JStr []) then label field @ '' is required''
      else if truthy v \<and> v \<noteq> JStr [] then
        (case type_f field of
           Email \<Rightarrow>
             (if \<not> emailRegex_test (jsToString v) then label field @ '' must be a valid email''
              else [])
         | Text \<Rightarrow>
             (if tooShort (minLengthOf field) v
              then label field @ '' must be at least '' @ showInt (the (minLengthOf field))
                   @ '' characters''
              else if tooLong (maxLengthOf field) v
              then label field @ '' must be less than '' @ showInt (the (maxLengthOf field))
                   @ '' characters''
              else [])
         | Textarea \<Rightarrow>
             (if tooShort (minLengthOf field) v
              then label field @ '' must be at least '' @ showInt (the (minLengthOf field))
                   @ '' characters''
              else if tooLong (maxLengthOf field) v
              then label field @ '' must be less than '' @ showInt (the (maxLengthOf field))
                   @ '' characters''
              else [])
         | Select \<Rightarrow>
             (case options field of
                Some opts \<Rightarrow>
                  (if \<not> includes_js opts v then label field @ '' has an invalid option selected''
                   else [])
              | None \<Rightarrow> [])
         | Radio \<Rightarrow>
             (case options field of
                Some opts \<Rightarrow>
                  (if \<not> includes_js opts v then label field @ '' has an invalid option selected''
                   else [])
              | None \<Rightarrow> [])
         | Checkbox \<Rightarrow> (case v of JArr vals \<Rightarrow> checkboxLoop field vals | _ \<Rightarrow> [])
         | File \<Rightarrow> [])
      else [])"


section \<open>The multi-step partitioner\<close>

text \<open>\<open>Math.ceil(a / b)\<close> on two array lengths, the divisor positive. Lengths are below
  \<open>2^32\<close>, where the rounded quotient has the ceiling of the exact one.\<close>

definition mathCeilDiv :: "nat \<Rightarrow> nat \<Rightarrow> nat" where
  "mathCeilDiv a b = nat \<lceil>(of_nat a :: rat) / of_nat b\<rceil>"

text \<open>\<open>xs.slice(start, stop)\<close> with indices that are not negative.\<close>

definition slice :: "'a list \<Rightarrow> nat \<Rightarrow> nat \<Rightarrow> 'a list" where
  "slice xs start stop = drop start (take stop xs)"

text \<open>\<open>steps\<close> and \<open>isMultiStep\<close> as both components compute them from the settings.\<close>

definition stepsOf :: "Form \<Rightarrow> string list" where
  "stepsOf form =
     (if isMultiStep (settings form)
      then (case steps (settings form) of Some names \<Rightarrow> names | None \<Rightarrow> [])
      else [])"

definition isMultiStepForm :: "Form \<Rightarrow> bool" where
  "isMultiStepForm form = (isMultiStep (settings form) \<and> length (stepsOf form) > 0)"

text \<open>\<open>getFieldsForStep\<close> of the preview component, whose form is always there.\<close>

definition getFieldsForStep_preview :: "Form \<Rightarrow> nat \<Rightarrow> FormField list" where
  "getFieldsForStep_preview form stepIndex =
     (if \<not> isMultiStepForm form then formFields form
      else
        let fieldsPerStep = mathCeilDiv (length (formFields form)) (length (stepsOf form));
            startIndex = stepIndex * fieldsPerStep;
            endIndex = startIndex + fieldsPerStep
        in slice (formFields form) startIndex endIndex)"

text \<open>\<open>getFieldsForStep\<close> of the public form page, whose form is \<open>undefined\<close> (here
  \<open>None\<close>) until the query has loaded it: every \<open>form?.\<close> then gives the fallback.\<close>

definition getFieldsForStep :: "Form option \<Rightarrow> nat \<Rightarrow> FormField list" where
  "getFieldsForStep formOpt stepIndex =
     (case formOpt of
        None \<Rightarrow> []
      | Some form \<Rightarrow>
          if \<not> isMultiStepForm form then formFields form
          else
            let fieldsPerStep = mathCeilDiv (length (formFields form)) (length (stepsOf form));
                startIndex = stepIndex * fieldsPerStep;
                endIndex = startIndex + fieldsPerStep
            in slice (formFields form) startIndex endIndex)"

text \<open>The steps of a multi-step form, one list of fields for each step name in order.\<close>

definition partition_steps :: "Form \<Rightarrow> FormField list list" where
  "partition_steps form = map (getFieldsForStep (Some form)) [0..<length (stepsOf form)]"

section \<open>The field list of the form builder\<close>

text \<open>The builder keeps the field list in its component state; each handler is modelled as
  the function from the list it finds to the list it sets. Fresh identifiers come from
  \<open>generateId\<close>, which is taken as an argument.\<close>

fun typeString :: "fieldType \<Rightarrow> string" where
  "typeString Text = ''text''"
| "typeString Email = ''email''"
| "typeString Select = ''select''"
| "typeString Checkbox = ''checkbox''"
| "typeString Radio = ''radio''"
| "typeString Textarea = ''textarea''"
| "typeString File = ''file''"

definition toUpperCase :: "char \<Rightarrow> char" where
  "toUpperCase c =
     (if 97 \<le> (of_char c :: nat) \<and> (of_char c :: nat) \<le> 122
      then char_of ((of_char c :: nat) - 32) else c)"

definition capitalize :: "string \<Rightarrow> string" where
  "capitalize s = (case s of [] \<Rightarrow> [] | c # cs \<Rightarrow> toUpperCase c # cs)"

definition handleAddField :: "string \<Rightarrow> fieldType \<Rightarrow> FormField list \<Rightarrow> FormField list" where
  "handleAddField newId fieldType fs =
     fs @ [\<lparr> id_f = newId,
             type_f = fieldType,
             label = ''New '' @ capitalize (typeString fieldType) @ '' Field'',
             placeholder = Some [],
             required = False,
             validation = None,
             options = (if fieldType = Select \<or> fieldType = Radio \<or> fieldType = Checkbox
                        then Some [''Option 1''] else None),
             fileTypes = (if fieldType = File then Some [''image/jpeg'', ''image/png'']
                          else None),
             maxFileSize = (if fieldType = File then Some 5242880 else None),
             order_f = int (length fs) \<rparr>]"

definition handleDeleteField :: "string \<Rightarrow> FormField list \<Rightarrow> FormField list" where
  "handleDeleteField fieldId fs = filter (\<lambda>field. id_f field \<noteq> fieldId) fs"

definition handleDuplicateField :: "string \<Rightarrow> FormField \<Rightarrow> FormField list \<Rightarrow> FormField list" where
  "handleDuplicateField newId field fs =
     fs @ [field \<lparr> id_f := newId,
                   label := label field @ '' (Copy)'',
                   order_f := int (length fs) \<rparr>]"

text \<open>The result object of a drag: the source index, and the destination index when the
  item was dropped on the list.\<close>

record dropResult =
  source_index :: nat
  destination_index :: "nat option"

text \<open>\<open>fields.map((field, index) => ({...field, order: index}))\<close>, counting from \<open>i\<close>.\<close>

fun renumber :: "nat \<Rightarrow> FormField list \<Rightarrow> FormField list" where
  "renumber i [] = []"
| "renumber i (field # fs) = field \<lparr> order_f := int i \<rparr> # renumber (Suc i) fs"

text \<open>
  \<open>handleDragEnd\<close>. Without a destination the list stays; otherwise the item at the source
  index is spliced out and spliced in at the destination. A source index beyond the list
  splices nothing out and would put \<open>undefined\<close> into the list: that state is no list of
  fields, and is \<open>None\<close> here.
\<close>

definition handleDragEnd :: "dropResult \<Rightarrow> FormField list \<Rightarrow> FormField list option" where
  "handleDragEnd result fs =
     (case destination_index result of
        None \<Rightarrow> Some fs
      | Some dst \<Rightarrow>
          if source_index result < length fs then
            let reorderedField = fs ! source_index result;
                removed = take (source_index result) fs @ drop (Suc (source_index result)) fs;
                inserted = take dst removed @ [reorderedField] @ drop dst removed
            in Some (renumber 0 inserted)
          else None)"

text \<open>The invariant of the data model: the order values are \<open>0, 1, ...\<close> in list order.\<close>

definition ordersDense :: "FormField list \<Rightarrow> bool" where
  "ordersDense fs = (map order_f fs = map int [0..<length fs])"

section \<open>The submission service\<close>

text \<open>An entry of the \<open>fields\<close> array of a request body, as the JSON has it: a key that is
  missing reads \<open>undefined\<close>.\<close>

record BodyField =
  b_fieldId :: jsval
  b_value :: jsval
  b_fieldType :: jsval

text \<open>A stored entry, after the schema has cast the identifier and the type to strings; the
  value is of mixed type and is stored as it came.\<close>

record SubmissionField =
  fieldId :: string
  value_s :: jsval
  fieldType :: string

record Metadata =
  ipAddress :: "string option"
  userAgent :: "string option"
  referrer :: "string option"
  submittedAt :: int

datatype submissionStatus = Pending | Processed | Failed

record Submission =
  sid :: nat
  formId :: string
  subFields :: "SubmissionField list"
  metadata :: Metadata
  status_s :: submissionStatus

text \<open>
  What the request validator and the object mapper do is outside the repository where the
  source does not fix it: the verdict of \<open>notEmpty()\<close> on an array value, and the cast and
  schema validation that \<open>save()\<close> applies to the entries (\<open>None\<close> when \<open>save()\<close> rejects).
  Both are parameters of the service.
\<close>

record library =
  notEmptyArray :: "jsval list \<Rightarrow> bool"
  castFields :: "BodyField list \<Rightarrow> SubmissionField list option"

text \<open>The document store: the forms by identifier, the submissions in insertion order, and
  the next fresh submission identifier.\<close>

record store =
  forms :: "string \<Rightarrow> Form option"
  subs :: "Submission list"
  nextId :: nat

text \<open>A request that the rate limiter has admitted. The form identifier, when the body has
  one, is a string; \<open>fields\<close> is \<open>None\<close> when the body has no array there.\<close>

record submissionRequest =
  req_formId :: "string option"
  req_fields :: "BodyField list option"
  req_ip :: "string option"
  req_userAgent :: "string option"
  req_now :: int

text \<open>The place an error detail points to: \<open>formId\<close>, \<open>fields\<close>, \<open>fields[i].fieldId\<close> or
  \<open>fields[i].value\<close>. A detail is the place and the message.\<close>

datatype path = PFormId | PFields | PFieldId nat | PValue nat

type_synonym detail = "path \<times> string"

text \<open>The responses of the two handlers: 201 with the submission, 400 \<open>Validation failed\<close>
  with the details, 404 \<open>Form not found\<close>, 400 \<open>Form is not published\<close>, 500, 404
  \<open>Submission not found\<close>, and 200 after a deletion.\<close>

datatype response =
    Created Submission
  | ValidationFailed "detail list"
  | FormNotFound
  | FormNotPublished
  | ServerError
  | SubmissionNotFound
  | Deleted

text \<open>\<open>isMongoId()\<close>: twenty-four hexadecimal digits.\<close>

definition isHexDigit :: "char \<Rightarrow> bool" where
  "isHexDigit c = (c \<in> set ''0123456789abcdefABCDEF'')"

definition isMongoId :: "string option \<Rightarrow> bool" where
  "isMongoId v = (case v of None \<Rightarrow> False | Some s \<Rightarrow> length s = 24 \<and> list_all isHexDigit s)"

text \<open>\<open>notEmpty()\<close>: the value, as a string, has a character; \<open>undefined\<close> and \<open>null\<close>
  count as the empty string.\<close>

fun notEmpty :: "library \<Rightarrow> jsval \<Rightarrow> bool" where
  "notEmpty lib JUndefined = False"
| "notEmpty lib JNull = False"
| "notEmpty lib (JArr xs) = notEmptyArray lib xs"
| "notEmpty lib v = (jsToString v \<noteq> [])"

text \<open>The errors of one wildcard chain, \<open>fields.*.fieldId\<close> or \<open>fields.*.value\<close>: one for
  each entry that fails, in order.\<close>

fun wildcardErrors ::
  "library \<Rightarrow> (BodyField \<Rightarrow> jsval) \<Rightarrow> (nat \<Rightarrow> path) \<Rightarrow> string \<Rightarrow> nat \<Rightarrow> BodyField list \<Rightarrow> detail list"
where
  "wildcardErrors lib sel mk msg i [] = []"
| "wildcardErrors lib sel mk msg i (e # es) =
     (if notEmpty lib (sel e) then [] else [(mk i, msg)])
     @ wildcardErrors lib sel mk msg (Suc i) es"

text \<open>\<open>validateSubmission\<close> followed by \<open>validationResult(req).array()\<close>: the four chains
  run in order and every failure is collected.\<close>

definition validateSubmission :: "library \<Rightarrow> submissionRequest \<Rightarrow> detail list" where
  "validateSubmission lib req =
     (if isMongoId (req_formId req) then [] else [(PFormId, ''Valid form ID is required'')])
     @ (case req_fields req of
          None \<Rightarrow> [(PFields, ''Fields must be an array'')]
        | Some es \<Rightarrow>
            wildcardErrors lib b_fieldId PFieldId ''Field ID is required'' 0 es
            @ wildcardErrors lib b_value PValue ''Field value is required'' 0 es)"

text \<open>\<open>Form.findByIdAndUpdate(id, { $inc: { submissions: d } })\<close>: a delta applied to the
  stored counter; nothing happens when the form is gone.\<close>

definition incSubmissions :: "string \<Rightarrow> int \<Rightarrow> (string \<Rightarrow> Form option) \<Rightarrow> (string \<Rightarrow> Form option)" where
  "incSubmissions fid d fs =
     (case fs fid of
        None \<Rightarrow> fs
      | Some form \<Rightarrow> fs (fid \<mapsto> form \<lparr> submissions := submissions form + d \<rparr>))"

text \<open>The handler of \<open>POST /submissions\<close>: the response and the store it leaves.\<close>

definition postSubmission :: "library \<Rightarrow> store \<Rightarrow> submissionRequest \<Rightarrow> response \<times> store" where
  "postSubmission lib st req =
     (let errors = validateSubmission lib req in
      if errors \<noteq> [] then (ValidationFailed errors, st)
      else
        case (req_formId req, req_fields req) of
          (Some fid, Some es) \<Rightarrow>
            (case forms st fid of
               None \<Rightarrow> (FormNotFound, st)
             | Some form \<Rightarrow>
                 if status form \<noteq> Published then (FormNotPublished, st)
                 else
                   (case castFields lib es of
                      None \<Rightarrow> (ServerError, st)
                    | Some stored \<Rightarrow>
                        let submission =
                              \<lparr> sid = nextId st,
                                formId = fid,
                                subFields = stored,
                                metadata = \<lparr> ipAddress = req_ip req,
                                             userAgent = req_userAgent req,
                                             referrer = None,
                                             submittedAt = req_now req \<rparr>,
                                status_s = Pending \<rparr>
                        in (Created submission,
                            st \<lparr> subs := subs st @ [submission],
                                 nextId := Suc (nextId st),
                                 forms := incSubmissions fid 1 (forms st) \<rparr>)))
        | _ \<Rightarrow> (ValidationFailed errors, st))"


text \<open>The number of stored submissions that reference a form.\<close>

definition recordCount :: "store \<Rightarrow> string \<Rightarrow> nat" where
  "recordCount st fid = length (filter (\<lambda>s. formId s = fid) (subs st))"

text \<open>The counter of every stored form is the number of its submission records.\<close>

definition consistent :: "store \<Rightarrow> bool" where
  "consistent st =
     (\<forall>fid form. forms st fid = Some form \<longrightarrow> submissions form = int (recordCount st fid))"

text \<open>An instance of the library parameters to run the service on concrete requests:
  an array counts as not empty when it has an element, and an entry is stored when its
  identifier and type are strings with a character.\<close>

definition castField :: "BodyField \<Rightarrow> SubmissionField option" where
  "castField e =
     (case (b_fieldId e, b_fieldType e) of
        (JStr i, JStr t) \<Rightarrow>
          if i \<noteq> [] \<and> t \<noteq> [] \<and> b_value e \<noteq> JUndefined \<and> b_value e \<noteq> JNull
          then Some \<lparr> fieldId = i, value_s = b_value e, fieldType = t \<rparr>
          else None
      | _ \<Rightarrow> None)"

fun castAll :: "BodyField list \<Rightarrow> SubmissionField list option" where
  "castAll [] = Some []"
| "castAll (e # es) =
     (case castField e of
        None \<Rightarrow> None
      | Some f \<Rightarrow> (case castAll es of None \<Rightarrow> None | Some fs \<Rightarrow> Some (f # fs)))"

definition sampleLibrary :: library where
  "sampleLibrary = \<lparr> notEmptyArray = (\<lambda>xs. xs \<noteq> []), castFields = castAll \<rparr>"

section \<open>The analytics aggregator\<close>





















section \<open>Sample forms and requests\<close>

definition sampleField ::
  "string \<Rightarrow> fieldType \<Rightarrow> string \<Rightarrow> bool \<Rightarrow> string list option \<Rightarrow> int \<Rightarrow> FormField" where
  "sampleField i t l r opts n =
     \<lparr> id_f = i, type_f = t, label = l, placeholder = None, required = r,
       validation = None, options = opts, fileTypes = None, maxFileSize = None,
       order_f = n \<rparr>"

definition nameField :: FormField where
  "nameField = sampleField ''f1'' Text ''Name'' True None 0"

definition emailField :: FormField where
  "emailField = sampleField ''f2'' Email ''Email'' False None 1"

definition colorField :: FormField where
  "colorField = sampleField ''f3'' Select ''Color'' False (Some [''Red'', ''Blue'']) 2"

definition hobbiesField :: FormField where
  "hobbiesField = sampleField ''f4'' Checkbox ''Hobbies'' False (Some [''Chess'', ''Music'']) 3"

definition sampleSettings :: "bool \<Rightarrow> string list \<Rightarrow> int option \<Rightarrow> FormSettings" where
  "sampleSettings multi names limit =
     \<lparr> thankYouMessage = Some ''Thank you for your submission!'',
       submissionLimit = limit,
       allowMultipleSubmissions = True,
       redirectUrl = None,
       isMultiStep = multi,
       steps = Some names \<rparr>"

text \<open>Seven fields over the steps A, B and C.\<close>

definition sevenFieldForm :: Form where
  "sevenFieldForm =
     \<lparr> title = ''Survey'', description = None,
       formFields = [nameField, emailField, colorField, hobbiesField,
                     sampleField ''f5'' Textarea ''Notes'' False None 4,
                     sampleField ''f6'' Radio ''Size'' False (Some [''S'', ''L'']) 5,
                     sampleField ''f7'' File ''Photo'' False None 6],
       settings = sampleSettings True [''A'', ''B'', ''C''] None,
       status = Published, submissions = 0 \<rparr>"

text \<open>A published contact form with a submission limit of one, the store that holds it, and
  requests against it.\<close>

definition sampleFormId :: string where
  "sampleFormId = ''64b7f0c2a1d3e4f5a6b7c8d9''"

definition contactForm :: Form where
  "contactForm =
     \<lparr> title = ''Contact'', description = None,
       formFields = [nameField, emailField],
       settings = sampleSettings False [] (Some 1),
       status = Published, submissions = 0 \<rparr>"

definition sampleStore :: store where
  "sampleStore = \<lparr> forms = [sampleFormId \<mapsto> contactForm], subs = [], nextId = 0 \<rparr>"

definition entry :: "string \<Rightarrow> jsval \<Rightarrow> BodyField" where
  "entry i v = \<lparr> b_fieldId = JStr i, b_value = v, b_fieldType = JStr ''text'' \<rparr>"

definition sampleRequest :: "BodyField list \<Rightarrow> submissionRequest" where
  "sampleRequest es =
     \<lparr> req_formId = Some sampleFormId, req_fields = Some es,
       req_ip = Some ''203.0.113.7'', req_userAgent = Some ''curl'',
       req_now = 1700000000000 \<rparr>"

definition storedSubmission :: "nat \<Rightarrow> SubmissionField list \<Rightarrow> Submission" where
  "storedSubmission n fs =
     \<lparr> sid = n, formId = sampleFormId, subFields = fs,
       metadata = \<lparr> ipAddress = Some ''203.0.113.7'', userAgent = Some ''curl'',
                    referrer = None, submittedAt = 1700000000000 \<rparr>,
       status_s = Pending \<rparr>"




section \<open>Validation rules: properties\<close>

text \<open>The pattern, read as a language: a local part, the sign, a host part, a dot and a
  last part, all three not empty and free of white space and of the sign.\<close>

lemma notSpaceAt_dot: "notSpaceAt CHR ''.''"
  by (simp add: notSpaceAt_def jsSpace_def)

lemma notSpaceAt_not_at: "list_all notSpaceAt a \<Longrightarrow> CHR ''@'' \<notin> set a"
  by (auto simp: list_all_iff notSpaceAt_def)

lemma emailRegex_test_iff:
  "emailRegex_test s \<longleftrightarrow>
     (\<exists>a b c. s = a @ ''@'' @ b @ ''.'' @ c \<and> a \<noteq> [] \<and> b \<noteq> [] \<and> c \<noteq> []
              \<and> list_all notSpaceAt a \<and> list_all notSpaceAt b \<and> list_all notSpaceAt c)"
proof
  assume t: "emailRegex_test s"
  let ?l = "takeWhile (\<lambda>c. c \<noteq> CHR ''@'') s" and ?r = "dropWhile (\<lambda>c. c \<noteq> CHR ''@'') s"
  from t obtain x host where r: "?r = x # host"
    by (cases ?r) (auto simp: emailRegex_test_def Let_def)
  have x: "x = CHR ''@''" using hd_dropWhile[of "\<lambda>c. c \<noteq> CHR ''@''" s] r by auto
  from t r have l: "?l \<noteq> []" "list_all notSpaceAt ?l" and h: "list_all notSpaceAt host"
    and d: "CHR ''.'' \<in> set (butlast (tl host))"
    by (auto simp: emailRegex_test_def Let_def)
  from d obtain h0 t0 where host: "host = h0 # t0" by (cases host) auto
  with d have "t0 \<noteq> []" by auto
  then obtain u z where t0: "t0 = u @ [z]" by (metis append_butlast_last_id)
  with d host have "CHR ''.'' \<in> set u" by simp
  then obtain u1 u2 where u: "u = u1 @ CHR ''.'' # u2" by (meson split_list)
  have s: "s = ?l @ ''@'' @ (h0 # u1) @ ''.'' @ (u2 @ [z])"
    using takeWhile_dropWhile_id[of "\<lambda>c. c \<noteq> CHR ''@''" s] r x host t0 u by simp
  have "list_all notSpaceAt (h0 # u1)" "list_all notSpaceAt (u2 @ [z])"
    using h host t0 u by simp_all
  with s l show "\<exists>a b c. s = a @ ''@'' @ b @ ''.'' @ c \<and> a \<noteq> [] \<and> b \<noteq> [] \<and> c \<noteq> []
              \<and> list_all notSpaceAt a \<and> list_all notSpaceAt b \<and> list_all notSpaceAt c"
    by blast
next
  assume "\<exists>a b c. s = a @ ''@'' @ b @ ''.'' @ c \<and> a \<noteq> [] \<and> b \<noteq> [] \<and> c \<noteq> []
              \<and> list_all notSpaceAt a \<and> list_all notSpaceAt b \<and> list_all notSpaceAt c"
  then obtain a b c where s: "s = a @ CHR ''@'' # (b @ CHR ''.'' # c)"
    and ne: "a \<noteq> []" "b \<noteq> []" "c \<noteq> []"
    and ok: "list_all notSpaceAt a" "list_all notSpaceAt b" "list_all notSpaceAt c"
    by auto
  have na: "CHR ''@'' \<notin> set a" by (rule notSpaceAt_not_at[OF ok(1)])
  have na': "\<forall>x\<in>set a. x \<noteq> CHR ''@''" using na by auto
  have l: "takeWhile (\<lambda>c. c \<noteq> CHR ''@'') s = a"
    unfolding s using na' by (simp add: takeWhile_tail takeWhile_eq_all_conv)
  have r: "dropWhile (\<lambda>c. c \<noteq> CHR ''@'') s = CHR ''@'' # (b @ CHR ''.'' # c)"
    unfolding s using na' by (simp add: dropWhile_append3 dropWhile_eq_Nil_conv)
  obtain b0 b1 where b: "b = b0 # b1" using ne(2) by (cases b) auto
  have "butlast (tl (b @ CHR ''.'' # c)) = b1 @ CHR ''.'' # butlast c"
    using ne(3) by (simp add: b butlast_append)
  then have d: "CHR ''.'' \<in> set (butlast (tl (b @ CHR ''.'' # c)))" by simp
  have h: "list_all notSpaceAt (b @ CHR ''.'' # c)"
    using ok notSpaceAt_dot by simp
  show "emailRegex_test s"
    unfolding emailRegex_test_def Let_def l r using ne(1) ok(1) h d by simp
qed




lemma checkboxLoop_bad:
  "options field = Some opts \<Longrightarrow> \<exists>x\<in>set xs. \<not> includes_js opts x \<Longrightarrow>
   checkboxLoop field xs = label field @ '' has an invalid option selected''"
  by (induction xs) auto

lemma checkboxLoop_good:
  "options field = Some opts \<Longrightarrow> \<forall>x\<in>set xs. includes_js opts x \<Longrightarrow>
   checkboxLoop field xs = []"
  by (induction xs) auto




text \<open>
  C5, as the code has it. For a checkbox field with an options list, an array value with
  any element outside the options is rejected with \<open>{label} has an invalid option
  selected\<close>, whatever its other elements are, and an array of options passes. A truthy
  value that is not an array is not checked at all.
\<close>

theorem checkbox_rule:
  "type_f field = Checkbox \<Longrightarrow>
     (options field = Some opts \<longrightarrow> (\<exists>x\<in>set xs. \<not> includes_js opts x) \<longrightarrow>
        validateField field (JArr xs) = label field @ '' has an invalid option selected'')
   \<and> (options field = Some opts \<longrightarrow> (\<forall>x\<in>set xs. includes_js opts x) \<longrightarrow>
        validateField field (JArr xs) = [])
   \<and> ((\<forall>ys. v \<noteq> JArr ys) \<longrightarrow> truthy v \<longrightarrow> validateField field v = [])"
  by (cases v) (auto simp: validateField_def checkboxLoop_bad checkboxLoop_good)

theorem checkbox_rule_witness:
  "type_f hobbiesField = Checkbox
   \<and> options hobbiesField = Some [''Chess'', ''Music'']
   \<and> validateField hobbiesField (JArr [JStr ''Chess'', JStr ''Golf'', JStr ''Music''])
       = ''Hobbies has an invalid option selected''
   \<and> validateField hobbiesField (JArr [JStr ''Music'', JStr ''Chess'']) = []
   \<and> validateField hobbiesField (JBool True) = []"
proof -
  have t: "type_f hobbiesField = Checkbox"
    and opts: "options hobbiesField = Some [''Chess'', ''Music'']"
    and l: "label hobbiesField = ''Hobbies''"
    by (simp_all add: hobbiesField_def sampleField_def)
  have bad: "\<exists>x\<in>set [JStr ''Chess'', JStr ''Golf'', JStr ''Music''].
               \<not> includes_js [''Chess'', ''Music''] x"
    by (simp add: includes_js_def)
  have good: "\<forall>x\<in>set [JStr ''Music'', JStr ''Chess'']. includes_js [''Chess'', ''Music''] x"
    by (simp add: includes_js_def)
  have scalar: "\<forall>ys. JBool True \<noteq> JArr ys" by simp
  show ?thesis
    using t opts bad good scalar
      checkbox_rule[OF t, of "[''Chess'', ''Music'']"
        "[JStr ''Chess'', JStr ''Golf'', JStr ''Music'']" "JBool True"]
      checkbox_rule[OF t, of "[''Chess'', ''Music'']"
        "[JStr ''Music'', JStr ''Chess'']" "JBool True"]
    by (simp add: l)
qed

text \<open>C5 as stated fails: a checkbox value that is not an array passes.\<close>

theorem checkbox_rule_counterexample:
  "validateField hobbiesField (JStr ''Golf'') = []"
  by (simp add: validateField_def hobbiesField_def sampleField_def)

section \<open>The partitioner: properties\<close>

lemma mathCeilDiv_real: "mathCeilDiv a b = nat \<lceil>real a / real b\<rceil>"
proof -
  have "\<lceil>(of_nat a :: rat) / of_nat b\<rceil> = - (- int a div int b)"
    using ceiling_divide_eq_div[of "int a" "int b", where ?'a = rat] by simp
  moreover have "\<lceil>real a / real b\<rceil> = - (- int a div int b)"
    using ceiling_divide_eq_div[of "int a" "int b", where ?'a = real] by simp
  ultimately show ?thesis by (simp add: mathCeilDiv_def)
qed

lemma mathCeilDiv_ge:
  assumes "0 < b" shows "a \<le> mathCeilDiv a b * b"
proof -
  have "real a / real b \<le> real (mathCeilDiv a b)"
    unfolding mathCeilDiv_real by (rule of_nat_ceiling)
  then have "real a \<le> real (mathCeilDiv a b) * real b"
    using assms by (simp add: pos_divide_le_eq)
  then have "real a \<le> real (mathCeilDiv a b * b)" by simp
  then show ?thesis by (simp only: of_nat_le_iff)
qed

lemma take_append_slice: "take a xs @ slice xs a (a + p) = take (a + p) xs"
proof -
  have "take a (take (a + p) xs) = take a xs" by simp
  then show ?thesis
    unfolding slice_def using append_take_drop_id[of a "take (a + p) xs"] by simp
qed

lemma concat_slices:
  "concat (map (\<lambda>i. slice xs (i * p) (i * p + p)) [0..<k]) = take (k * p) xs"
proof (induction k)
  case 0
  then show ?case by simp
next
  case (Suc k)
  have "concat (map (\<lambda>i. slice xs (i * p) (i * p + p)) [0..<Suc k])
        = concat (map (\<lambda>i. slice xs (i * p) (i * p + p)) [0..<k])
          @ slice xs (k * p) (k * p + p)"
    by simp
  also have "\<dots> = take (k * p) xs @ slice xs (k * p) (k * p + p)"
    by (simp only: Suc)
  also have "\<dots> = take (k * p + p) xs"
    by (rule take_append_slice)
  also have "k * p + p = Suc k * p" by simp
  finally show ?case .
qed

lemma slice_take_drop: "slice xs a (a + p) = take p (drop a xs)"
  unfolding slice_def by (simp add: drop_take)

lemma steps_seven_three: "mathCeilDiv 7 3 = 3"
  by (simp add: mathCeilDiv_real)

lemma getFieldsForStep_multi:
  "isMultiStepForm form \<Longrightarrow>
   getFieldsForStep (Some form) i =
     slice (formFields form)
       (i * mathCeilDiv (length (formFields form)) (length (stepsOf form)))
       (i * mathCeilDiv (length (formFields form)) (length (stepsOf form))
        + mathCeilDiv (length (formFields form)) (length (stepsOf form)))"
  by (simp add: getFieldsForStep_def Let_def)

lemma getFieldsForStep_preview_eq:
  "getFieldsForStep_preview form i = getFieldsForStep (Some form) i"
  by (simp add: getFieldsForStep_def getFieldsForStep_preview_def)

lemma partition_concat:
  assumes "isMultiStepForm form"
  shows "concat (partition_steps form) = formFields form"
proof -
  let ?k = "length (stepsOf form)" and ?n = "length (formFields form)"
  have k: "0 < ?k" using assms by (simp add: isMultiStepForm_def)
  have "partition_steps form
        = map (\<lambda>i. slice (formFields form) (i * mathCeilDiv ?n ?k)
                      (i * mathCeilDiv ?n ?k + mathCeilDiv ?n ?k)) [0..<?k]"
    unfolding partition_steps_def using getFieldsForStep_multi[OF assms] by simp
  then have "concat (partition_steps form) = take (?k * mathCeilDiv ?n ?k) (formFields form)"
    by (simp only: concat_slices)
  moreover have "?n \<le> ?k * mathCeilDiv ?n ?k"
    using mathCeilDiv_ge[OF k, of ?n] by (simp add: mult.commute)
  ultimately show ?thesis by simp
qed

text \<open>
  C6. For a multi-step form (the flag set and at least one step name), with
  \<open>fieldsPerStep\<close> the ceiling of the number of fields over the number of steps, step \<open>i\<close>
  of the public page and of the preview is the slice of \<open>fieldsPerStep\<close> fields from
  position \<open>i * fieldsPerStep\<close>, clipped to the list. The steps in order concatenate to the
  field list itself, so nothing is lost, repeated or reordered, and the sizes add up to
  the number of fields. Seven fields over three steps give the sizes 3, 3 and 1. The
  partition is a function of the form alone, so equal inputs give equal steps.
\<close>

theorem partition_spec:
  assumes "isMultiStepForm form"
  shows "(\<forall>i. getFieldsForStep (Some form) i
              = take (nat \<lceil>real (length (formFields form)) / real (length (stepsOf form))\<rceil>)
                  (drop (i * nat \<lceil>real (length (formFields form))
                                      / real (length (stepsOf form))\<rceil>)
                     (formFields form))
            \<and> getFieldsForStep_preview form i = getFieldsForStep (Some form) i)
       \<and> concat (partition_steps form) = formFields form
       \<and> sum_list (map length (partition_steps form)) = length (formFields form)
       \<and> (length (formFields form) = 7 \<and> length (stepsOf form) = 3
            \<longrightarrow> map length (partition_steps form) = [3, 3, 1])"
proof -
  let ?p = "mathCeilDiv (length (formFields form)) (length (stepsOf form))"
  have step: "getFieldsForStep (Some form) i = take ?p (drop (i * ?p) (formFields form))" for i
    using getFieldsForStep_multi[OF assms, of i] by (simp only: slice_take_drop)
  have a: "\<forall>i. getFieldsForStep (Some form) i
              = take (nat \<lceil>real (length (formFields form)) / real (length (stepsOf form))\<rceil>)
                  (drop (i * nat \<lceil>real (length (formFields form))
                                      / real (length (stepsOf form))\<rceil>)
                     (formFields form))
            \<and> getFieldsForStep_preview form i = getFieldsForStep (Some form) i"
    using step by (simp only: mathCeilDiv_real getFieldsForStep_preview_eq simp_thms)
  have c: "concat (partition_steps form) = formFields form"
    by (rule partition_concat[OF assms])
  have "sum_list (map length (partition_steps form)) = length (concat (partition_steps form))"
    by (simp only: length_concat)
  then have s: "sum_list (map length (partition_steps form)) = length (formFields form)"
    by (simp only: c)
  have e: "map length (partition_steps form) = [3, 3, 1]"
    if h: "length (formFields form) = 7 \<and> length (stepsOf form) = 3"
  proof -
    have u: "[0..<3] = [0, 1, 2::nat]" by (simp add: upt_rec)
    have "partition_steps form = map (\<lambda>i. take 3 (drop (i * 3) (formFields form))) [0, 1, 2]"
      unfolding partition_steps_def using h u step by (simp add: steps_seven_three)
    then show ?thesis using h by simp
  qed
  from a c s e show ?thesis by blast
qed

theorem partition_spec_witness:
  "isMultiStepForm sevenFieldForm
   \<and> concat (partition_steps sevenFieldForm) = formFields sevenFieldForm
   \<and> map length (partition_steps sevenFieldForm) = [3, 3, 1]
   \<and> map (map id_f) (partition_steps sevenFieldForm)
       = [[''f1'', ''f2'', ''f3''], [''f4'', ''f5'', ''f6''], [''f7'']]"
proof -
  have st: "stepsOf sevenFieldForm = [''A'', ''B'', ''C'']"
    by (simp add: stepsOf_def sevenFieldForm_def sampleSettings_def)
  have h: "isMultiStepForm sevenFieldForm"
    by (simp add: isMultiStepForm_def st) (simp add: sevenFieldForm_def sampleSettings_def)
  have n: "length (formFields sevenFieldForm) = 7"
    by (simp add: sevenFieldForm_def)
  have u: "[0..<3] = [0, 1, 2::nat]" by (simp add: upt_rec)
  have c: "\<lceil>7 / 3 :: real\<rceil> = 3" by simp
  have ids: "map (map id_f) (partition_steps sevenFieldForm)
       = [[''f1'', ''f2'', ''f3''], [''f4'', ''f5'', ''f6''], [''f7'']]"
    unfolding partition_steps_def using partition_spec[OF h]
    by (simp add: st n u c)
       (simp add: sevenFieldForm_def sampleField_def nameField_def emailField_def
          colorField_def hobbiesField_def)
  show ?thesis
    using h n st ids partition_spec[OF h] by simp
qed

section \<open>The field list of the builder: properties\<close>

lemma renumber_length: "length (renumber i fs) = length fs"
  by (induction fs arbitrary: i) auto

lemma renumber_orders: "map order_f (renumber i fs) = map int [i..<i + length fs]"
proof (induction fs arbitrary: i)
  case Nil
  then show ?case by simp
next
  case (Cons f fs)
  have "[i..<i + length (f # fs)] = i # [Suc i..<Suc i + length fs]"
    by (simp add: upt_rec)
  then show ?case using Cons by simp
qed

lemma renumber_dense: "ordersDense (renumber 0 fs)"
  using renumber_orders[of 0 fs] by (simp add: ordersDense_def renumber_length)

text \<open>A drop on the list renumbers every field; adding and duplicating keep a dense numbering.\<close>

lemma handleDragEnd_dense:
  "destination_index result = Some dst \<Longrightarrow> handleDragEnd result fs = Some fs' \<Longrightarrow> ordersDense fs'"
  by (auto simp: handleDragEnd_def Let_def renumber_dense split: if_splits)

lemma handleDragEnd_no_destination:
  "destination_index result = None \<Longrightarrow> handleDragEnd result fs = Some fs"
  by (simp add: handleDragEnd_def)

lemma handleAddField_dense:
  "ordersDense fs \<Longrightarrow> ordersDense (handleAddField newId t fs)"
  by (simp add: ordersDense_def handleAddField_def)

lemma handleDuplicateField_dense:
  "ordersDense fs \<Longrightarrow> ordersDense (handleDuplicateField newId field fs)"
  by (simp add: ordersDense_def handleDuplicateField_def)

text \<open>
  C9: after every mutation of the field list the order values are \<open>0, 1, ...\<close> in list
  order. Deletion does not keep this: \<open>handleDeleteField\<close> filters the list and leaves
  the order values as they were. Deleting the first of two fields leaves one field whose
  order is 1.
\<close>

theorem handleDeleteField_breaks_order:
  "ordersDense [nameField, emailField]
   \<and> handleDeleteField ''f1'' [nameField, emailField] = [emailField]
   \<and> map order_f (handleDeleteField ''f1'' [nameField, emailField]) = [1]
   \<and> \<not> ordersDense (handleDeleteField ''f1'' [nameField, emailField])"
  by (simp add: ordersDense_def handleDeleteField_def nameField_def emailField_def
        sampleField_def upt_rec)

section \<open>The submission service: properties\<close>

lemma notEmpty_empty [simp]:
  "\<not> notEmpty lib JUndefined" "\<not> notEmpty lib JNull" "\<not> notEmpty lib (JStr [])"
  by simp_all



lemma wildcardErrors_length:
  "length (wildcardErrors lib sel mk msg k es) = length (filter (\<lambda>e. \<not> notEmpty lib (sel e)) es)"
  by (induction es arbitrary: k) auto

lemma wildcardErrors_Nil_iff:
  "wildcardErrors lib sel mk msg k es = [] \<longleftrightarrow> (\<forall>e\<in>set es. notEmpty lib (sel e))"
  by (induction es arbitrary: k) auto

lemma validateSubmission_Nil_iff:
  "validateSubmission lib req = [] \<longleftrightarrow>
     isMongoId (req_formId req)
     \<and> (\<exists>es. req_fields req = Some es
           \<and> (\<forall>e\<in>set es. notEmpty lib (b_fieldId e) \<and> notEmpty lib (b_value e)))"
  by (auto simp: validateSubmission_def wildcardErrors_Nil_iff split: option.splits)

lemma validateSubmission_length:
  "req_fields req = Some es \<Longrightarrow>
   length (validateSubmission lib req)
   = (if isMongoId (req_formId req) then 0 else 1)
     + length (filter (\<lambda>e. \<not> notEmpty lib (b_fieldId e)) es)
     + length (filter (\<lambda>e. \<not> notEmpty lib (b_value e)) es)"
  by (simp add: validateSubmission_def wildcardErrors_length)

lemma postSubmission_invalid:
  "validateSubmission lib req \<noteq> [] \<Longrightarrow>
   postSubmission lib st req = (ValidationFailed (validateSubmission lib req), st)"
  by (simp add: postSubmission_def)



lemma postSubmission_created:
  assumes "validateSubmission lib req = []"
    and "req_formId req = Some fid" and "req_fields req = Some es"
    and "forms st fid = Some form" and "status form = Published"
    and "castFields lib es = Some stored"
  shows "postSubmission lib st req =
     (Created \<lparr> sid = nextId st, formId = fid, subFields = stored,
                metadata = \<lparr> ipAddress = req_ip req, userAgent = req_userAgent req,
                             referrer = None, submittedAt = req_now req \<rparr>,
                status_s = Pending \<rparr>,
      st \<lparr> subs := subs st @ [\<lparr> sid = nextId st, formId = fid, subFields = stored,
                metadata = \<lparr> ipAddress = req_ip req, userAgent = req_userAgent req,
                             referrer = None, submittedAt = req_now req \<rparr>,
                status_s = Pending \<rparr>],
           nextId := Suc (nextId st),
           forms := incSubmissions fid 1 (forms st) \<rparr>)"
  using assms by (simp add: postSubmission_def Let_def)


lemma postSubmission_ignores_fields:
  "forms st fid = Some form \<Longrightarrow>
   fst (postSubmission lib (st \<lparr> forms := (forms st)(fid \<mapsto> form \<lparr> formFields := fs \<rparr>) \<rparr>) req)
   = fst (postSubmission lib st req)"
  by (auto simp: postSubmission_def Let_def split: option.splits)

lemma single_empty_value:
  "isMongoId (req_formId req) \<Longrightarrow> req_fields req = Some [e] \<Longrightarrow>
   notEmpty lib (b_fieldId e) \<Longrightarrow> b_value e = JStr [] \<Longrightarrow>
   postSubmission lib st req = (ValidationFailed [(PValue 0, ''Field value is required'')], st)"
  by (simp add: postSubmission_def validateSubmission_def)

subsection \<open>The service on the sample store\<close>

lemma sampleFormId_ok: "isMongoId (Some sampleFormId)"
  by (simp add: isMongoId_def sampleFormId_def isHexDigit_def)

lemma sampleRequest_sel:
  "req_formId (sampleRequest es) = Some sampleFormId"
  "req_fields (sampleRequest es) = Some es"
  "req_ip (sampleRequest es) = Some ''203.0.113.7''"
  "req_userAgent (sampleRequest es) = Some ''curl''"
  "req_now (sampleRequest es) = 1700000000000"
  by (simp_all add: sampleRequest_def)

lemma sampleRequest_valid:
  "\<forall>e\<in>set es. notEmpty lib (b_fieldId e) \<and> notEmpty lib (b_value e) \<Longrightarrow>
   validateSubmission lib (sampleRequest es) = []"
  by (simp add: validateSubmission_Nil_iff sampleRequest_sel sampleFormId_ok)

lemma castAll_one:
  "i \<noteq> [] \<Longrightarrow> v \<noteq> JUndefined \<Longrightarrow> v \<noteq> JNull \<Longrightarrow>
   castFields sampleLibrary [entry i v] = Some [\<lparr> fieldId = i, value_s = v, fieldType = ''text'' \<rparr>]"
  by (simp add: sampleLibrary_def castField_def entry_def)

lemma castAll_none: "castFields sampleLibrary [] = Some []"
  by (simp add: sampleLibrary_def)

lemma sample_post_one:
  assumes "forms st sampleFormId = Some form" "status form = Published"
    and "i \<noteq> []" "notEmpty sampleLibrary v"
  shows "postSubmission sampleLibrary st (sampleRequest [entry i v])
   = (Created (storedSubmission (nextId st) [\<lparr> fieldId = i, value_s = v, fieldType = ''text'' \<rparr>]),
      st \<lparr> subs := subs st @ [storedSubmission (nextId st) [\<lparr> fieldId = i, value_s = v, fieldType = ''text'' \<rparr>]],
           nextId := Suc (nextId st),
           forms := (forms st)(sampleFormId \<mapsto> form \<lparr> submissions := submissions form + 1 \<rparr>) \<rparr>)"
proof -
  have v: "v \<noteq> JUndefined" "v \<noteq> JNull" using assms(4) by auto
  have ok: "validateSubmission sampleLibrary (sampleRequest [entry i v]) = []"
    using assms(3,4) by (intro sampleRequest_valid) (simp add: entry_def)
  show ?thesis
    using postSubmission_created[OF ok sampleRequest_sel(1) sampleRequest_sel(2) assms(1,2)
        castAll_one[OF assms(3) v]]
    by (simp add: sampleRequest_sel storedSubmission_def incSubmissions_def assms(1))
qed

lemma sample_post_none:
  assumes "forms st sampleFormId = Some form" "status form = Published"
  shows "postSubmission sampleLibrary st (sampleRequest [])
   = (Created (storedSubmission (nextId st) []),
      st \<lparr> subs := subs st @ [storedSubmission (nextId st) []],
           nextId := Suc (nextId st),
           forms := (forms st)(sampleFormId \<mapsto> form \<lparr> submissions := submissions form + 1 \<rparr>) \<rparr>)"
proof -
  have ok: "validateSubmission sampleLibrary (sampleRequest []) = []"
    by (intro sampleRequest_valid) simp
  show ?thesis
    using postSubmission_created[OF ok sampleRequest_sel(1) sampleRequest_sel(2) assms(1,2)
        castAll_none]
    by (simp add: sampleRequest_sel storedSubmission_def incSubmissions_def assms(1))
qed

lemma sampleStore_sel:
  "forms sampleStore sampleFormId = Some contactForm" "subs sampleStore = []"
  "nextId sampleStore = 0" "status contactForm = Published" "submissions contactForm = 0"
  "formFields contactForm = [nameField, emailField]"
  "submissionLimit (settings contactForm) = Some 1"
  by (simp_all add: sampleStore_def contactForm_def sampleSettings_def)


subsection \<open>What the service checks\<close>

text \<open>
  C1, as the code has it. The service runs no rule of the validation engine and does not
  read the field definitions of the form. It checks the shape of the request only: the
  form identifier, that \<open>fields\<close> is an array, and that every entry has an identifier
  and a value that are not empty. When a check fails the response is the 400
  \<open>Validation failed\<close> with one detail for every failed check, and the store is as it
  was. The response is the same whatever fields the form defines. An empty string sent
  for the only entry gives exactly one detail, for the path \<open>fields[0].value\<close>.
\<close>

theorem request_shape_gate:
  "(validateSubmission lib req \<noteq> [] \<longrightarrow>
      postSubmission lib st req = (ValidationFailed (validateSubmission lib req), st))
   \<and> (\<forall>es. req_fields req = Some es \<longrightarrow>
        length (validateSubmission lib req)
        = (if isMongoId (req_formId req) then 0 else 1)
          + length (filter (\<lambda>e. \<not> notEmpty lib (b_fieldId e)) es)
          + length (filter (\<lambda>e. \<not> notEmpty lib (b_value e)) es))
   \<and> (\<forall>form fs. forms st fid = Some form \<longrightarrow>
        fst (postSubmission lib
               (st \<lparr> forms := (forms st)(fid \<mapsto> form \<lparr> formFields := fs \<rparr>) \<rparr>) req)
        = fst (postSubmission lib st req))
   \<and> (isMongoId (req_formId req) \<and> req_fields req = Some [e]
        \<and> notEmpty lib (b_fieldId e) \<and> b_value e = JStr [] \<longrightarrow>
        postSubmission lib st req
        = (ValidationFailed [(PValue 0, ''Field value is required'')], st))"
  using postSubmission_invalid[of lib req st] validateSubmission_length[of req _ lib]
    postSubmission_ignores_fields[of st fid _ lib _ req] single_empty_value[of req e lib st]
  by blast

theorem request_shape_gate_witness:
  "formFields contactForm = [nameField, emailField] \<and> required nameField
   \<and> postSubmission sampleLibrary sampleStore (sampleRequest [entry ''f1'' (JStr [])])
       = (ValidationFailed [(PValue 0, ''Field value is required'')], sampleStore)
   \<and> fst (postSubmission sampleLibrary
            (sampleStore \<lparr> forms := (forms sampleStore)
               (sampleFormId \<mapsto> contactForm \<lparr> formFields := [] \<rparr>) \<rparr>)
            (sampleRequest [entry ''f1'' (JStr [])]))
       = ValidationFailed [(PValue 0, ''Field value is required'')]"
  using request_shape_gate[of sampleLibrary "sampleRequest [entry ''f1'' (JStr [])]"
      sampleStore sampleFormId "entry ''f1'' (JStr [])"]
  by (simp add: sampleRequest_sel sampleFormId_ok sampleStore_sel)
     (simp add: entry_def nameField_def sampleField_def)

text \<open>C1 as stated fails: a request that leaves out the required field \<open>Name\<close> of a published
  form is accepted and stored.\<close>

theorem server_skips_rules_counterexample:
  "formFields contactForm = [nameField, emailField]
   \<and> validateField nameField JUndefined = ''Name is required''
   \<and> fst (postSubmission sampleLibrary sampleStore (sampleRequest []))
       = Created (storedSubmission 0 [])"
  using sample_post_none[OF sampleStore_sel(1) sampleStore_sel(4)]
  by (simp add: sampleStore_sel validateField_def nameField_def sampleField_def)




text \<open>
  C3: with a submission limit of one, the attempt after one accepted submission fails
  with \<open>LimitReached\<close>. The handler never reads \<open>submissionLimit\<close>: on the sample form
  with limit 1 the second request is accepted as the first was, and the counter is 2.
\<close>

theorem submission_limit_not_enforced:
  "submissionLimit (settings contactForm) = Some 1
   \<and> fst (postSubmission sampleLibrary sampleStore (sampleRequest [entry ''f1'' (JStr ''Ada'')]))
       = Created (storedSubmission 0
           [\<lparr> fieldId = ''f1'', value_s = JStr ''Ada'', fieldType = ''text'' \<rparr>])
   \<and> map_option submissions
        (forms (snd (postSubmission sampleLibrary sampleStore
                       (sampleRequest [entry ''f1'' (JStr ''Ada'')]))) sampleFormId) = Some 1
   \<and> fst (postSubmission sampleLibrary
            (snd (postSubmission sampleLibrary sampleStore
                    (sampleRequest [entry ''f1'' (JStr ''Ada'')])))
            (sampleRequest [entry ''f1'' (JStr ''Bob'')]))
       = Created (storedSubmission 1
           [\<lparr> fieldId = ''f1'', value_s = JStr ''Bob'', fieldType = ''text'' \<rparr>])
   \<and> map_option submissions
        (forms (snd (postSubmission sampleLibrary
            (snd (postSubmission sampleLibrary sampleStore
                    (sampleRequest [entry ''f1'' (JStr ''Ada'')])))
            (sampleRequest [entry ''f1'' (JStr ''Bob'')]))) sampleFormId) = Some 2"
proof -
  let ?st1 = "snd (postSubmission sampleLibrary sampleStore
                    (sampleRequest [entry ''f1'' (JStr ''Ada'')]))"
  have p1: "postSubmission sampleLibrary sampleStore (sampleRequest [entry ''f1'' (JStr ''Ada'')])
     = (Created (storedSubmission 0 [\<lparr> fieldId = ''f1'', value_s = JStr ''Ada'', fieldType = ''text'' \<rparr>]),
        sampleStore \<lparr> subs := [storedSubmission 0 [\<lparr> fieldId = ''f1'', value_s = JStr ''Ada'', fieldType = ''text'' \<rparr>]],
           nextId := 1,
           forms := (forms sampleStore)(sampleFormId \<mapsto> contactForm \<lparr> submissions := 1 \<rparr>) \<rparr>)"
    using sample_post_one[OF sampleStore_sel(1) sampleStore_sel(4), of "''f1''" "JStr ''Ada''"]
    by (simp add: sampleStore_sel)
  have f1: "forms ?st1 sampleFormId = Some (contactForm \<lparr> submissions := 1 \<rparr>)"
    and n1: "nextId ?st1 = 1"
    by (simp_all add: p1)
  have pub: "status (contactForm \<lparr> submissions := 1 \<rparr>) = Published"
    by (simp add: sampleStore_sel)
  have p2: "postSubmission sampleLibrary ?st1 (sampleRequest [entry ''f1'' (JStr ''Bob'')])
     = (Created (storedSubmission 1 [\<lparr> fieldId = ''f1'', value_s = JStr ''Bob'', fieldType = ''text'' \<rparr>]),
        ?st1 \<lparr> subs := subs ?st1 @ [storedSubmission 1 [\<lparr> fieldId = ''f1'', value_s = JStr ''Bob'', fieldType = ''text'' \<rparr>]],
           nextId := 2,
           forms := (forms ?st1)(sampleFormId \<mapsto> contactForm \<lparr> submissions := 2 \<rparr>) \<rparr>)"
    using sample_post_one[OF f1 pub, of "''f1''" "JStr ''Bob''"]
    by (simp add: n1)
  show ?thesis
    by (simp add: p2) (simp add: p1 sampleStore_sel)
qed



subsection \<open>The counter and the records\<close>














lemma sampleStore_consistent: "consistent sampleStore"
  by (simp add: consistent_def sampleStore_def recordCount_def contactForm_def)




section \<open>The analytics aggregator: properties\<close>










































end
